theory Spec2Isabelle
  imports Main "HOL-Library.Char_ord" "HOL-Library.List_Lexorder"
begin

section \<open>Python strings and text files\<close>

text \<open>
  A Python \<open>str\<close> is modelled as a \<open>string\<close>; a \<open>char\<close> stands for a code point below 256.
  The order on strings (\<open>HOL-Library.List_Lexorder\<close> over \<open>HOL-Library.Char_ord\<close>) is the
  lexicographic order on code points, which is the order Python's \<open>sorted\<close> uses on \<open>str\<close>.
\<close>

definition LF :: char where
  "LF = CHR 0x0A"

definition CR :: char where
  "CR = CHR 0x0D"

definition SPACE :: char where
  "SPACE = CHR 0x20"

text \<open>\<open>str.isspace\<close> on one character, for the code points below 256.\<close>

definition isspace :: "char \<Rightarrow> bool" where
  "isspace c = (c \<in> set [CHR 0x09, CHR 0x0A, CHR 0x0B, CHR 0x0C, CHR 0x0D,
                          CHR 0x1C, CHR 0x1D, CHR 0x1E, CHR 0x1F, CHR 0x20,
                          CHR 0x85, CHR 0xA0])"

text \<open>\<open>s.strip()\<close>: leading and trailing whitespace removed.\<close>

definition strip :: "string \<Rightarrow> string" where
  "strip s = rev (dropWhile isspace (rev (dropWhile isspace s)))"

text \<open>\<open>s.split(sep)\<close> for a one-character separator: never the empty list.\<close>

fun split :: "char \<Rightarrow> string \<Rightarrow> string list" where
  "split sep [] = [[]]"
| "split sep (c # cs) =
     (if c = sep then [] # split sep cs
      else (case split sep cs of
              [] \<Rightarrow> [[c]]
            | w # ws \<Rightarrow> (c # w) # ws))"

text \<open>\<open>s.startswith(p)\<close>.\<close>

definition startswith :: "string \<Rightarrow> string \<Rightarrow> bool" where
  "startswith s p = (take (length p) s = p)"

text \<open>\<open>p in s\<close> on strings: \<open>p\<close> occurs in \<open>s\<close> as a contiguous substring.\<close>

fun contains :: "string \<Rightarrow> string \<Rightarrow> bool" where
  "contains [] p = (p = [])"
| "contains (c # cs) p = (startswith (c # cs) p \<or> contains cs p)"

text \<open>\<open>sep.join(xs)\<close>.\<close>

fun join :: "string \<Rightarrow> string list \<Rightarrow> string" where
  "join sep [] = []"
| "join sep [x] = x"
| "join sep (x # y # ys) = x @ sep @ join sep (y # ys)"

text \<open>
  Reading a file opened in text mode with the default \<open>newline=None\<close> translates
  \<open>\r\n\<close> and a lone \<open>\r\<close> to \<open>\n\<close> (universal newlines).
\<close>

fun universal_newlines :: "string \<Rightarrow> string" where
  "universal_newlines [] = []"
| "universal_newlines [c] = (if c = CR then [LF] else [c])"
| "universal_newlines (c # d # ds) =
     (if c = CR \<and> d = LF then LF # universal_newlines ds
      else if c = CR then LF # universal_newlines (d # ds)
      else c # universal_newlines (d # ds))"

text \<open>
  Iterating a text (\<open>for line in f\<close>, \<open>f.readlines()\<close>): the text is cut after every
  \<open>\n\<close>, each line keeps its \<open>\n\<close>, and a last line without one is still a line.
\<close>

fun iter_lines :: "string \<Rightarrow> string list" where
  "iter_lines [] = []"
| "iter_lines (c # cs) =
     (if c = LF then [LF] # iter_lines cs
      else (case iter_lines cs of
              [] \<Rightarrow> [[c]]
            | l # ls \<Rightarrow> (c # l) # ls))"

text \<open>\<open>os.path.join(a, b)\<close> on POSIX, for two components.\<close>

definition path_join :: "string \<Rightarrow> string \<Rightarrow> string" where
  "path_join a b =
     (if startswith b ''/'' then b
      else if a = [] \<or> last a = CHR ''/'' then a @ b
      else a @ ''/'' @ b)"

text \<open>Truth value of an optional string: \<open>None\<close> and \<open>""\<close> are false.\<close>

fun truthy :: "string option \<Rightarrow> bool" where
  "truthy None = False"
| "truthy (Some s) = (s \<noteq> [])"

text \<open>\<open>a or b\<close> on optional strings.\<close>

definition py_or :: "string option \<Rightarrow> string option \<Rightarrow> string option" where
  "py_or a b = (if truthy a then a else b)"

text \<open>\<open>str(n)\<close> for a number that is not negative: its decimal digits.\<close>

definition digit :: "nat \<Rightarrow> char" where
  "digit d = ''0123456789'' ! d"

function show_nat :: "nat \<Rightarrow> string" where
  "show_nat n = (if n < 10 then [digit n] else show_nat (n div 10) @ [digit (n mod 10)])"
  by pat_completeness auto
termination
  by (relation "measure id") auto

declare show_nat.simps [simp del]

section \<open>The world the pipeline runs in\<close>

text \<open>
  The regular files the process can see, as a map from path to (decoded) text. Directories
  are not files of the map; \<open>os.path.exists\<close> is modelled on the paths the program probes,
  which all name regular files. Opening, reading and writing a file are assumed to succeed:
  a full disk or a permission error on a file is outside the model. What is inside it:
  an external command that cannot be started, an output directory that cannot be made, and
  a console message that the markup parser rejects.
\<close>

type_synonym filesystem = "string \<rightharpoonup> string"

text \<open>What \<open>subprocess.run\<close> returns: the \<open>CompletedProcess\<close>.\<close>

record proc =
  returncode :: int
  stdout :: string
  stderr :: string

text \<open>The \<open>summary\<close> dictionary of \<open>generate_summary\<close>; \<open>stats\<close> keeps insertion order.\<close>

record summary =
  target :: "string option"
  timestamp :: string
  stats :: "(string \<times> nat) list"

text \<open>
  Everything the program takes from outside its own code. \<open>exec argv files\<close> is one
  synchronous run of an external command: \<open>Inl t\<close> when \<open>subprocess\<close> raises an exception
  whose text is \<open>t\<close> (for example the binary is not there), otherwise the completed process
  and the files as the command left them. The other fields are library calls:
  \<open>shutil.which\<close>, \<open>os.path.expanduser\<close>, \<open>datetime.now().isoformat()\<close>,
  \<open>json.dump(summary, indent=4)\<close>, \<open>json.dumps(urls, indent=2)\<close>; \<open>markup_error t\<close> is the
  text of the \<open>MarkupError\<close> that \<open>rich\<close> raises when it renders the markup \<open>t\<close>, \<open>None\<close> when
  it renders it; \<open>makedirs_error files p\<close> is the text of the \<open>OSError\<close> of
  \<open>os.makedirs(p, exist_ok=True)\<close> for a path \<open>p\<close> that is not empty, \<open>None\<close> when the
  directory is made or is there already.
\<close>

record env =
  exec :: "string list \<Rightarrow> filesystem \<Rightarrow> string + proc \<times> filesystem"
  which :: "filesystem \<Rightarrow> string \<Rightarrow> string option"
  expanduser :: "string \<Rightarrow> string"
  now_isoformat :: string
  json_summary :: "summary \<Rightarrow> string"
  json_urls :: "string list \<Rightarrow> string"
  markup_error :: "string \<Rightarrow> string option"
  makedirs_error :: "filesystem \<Rightarrow> string \<Rightarrow> string option"

subsection \<open>Exceptions\<close>

text \<open>
  The exceptions of a run, each but \<open>SystemExit\<close> with the text \<open>str(e)\<close> gives. A function
  that can raise returns an outcome together with the world as it is at that point.
\<close>

datatype exn =
    SystemExit int
  | MarkupError string
  | OSError string
  | IndexError string

datatype 'a outcome = Return 'a | Raise exn

text \<open>\<open>str(e)\<close> for an exception that \<open>except Exception as e\<close> catches.\<close>

fun str_of :: "exn \<Rightarrow> string" where
  "str_of (SystemExit code) = []"
| "str_of (MarkupError t) = t"
| "str_of (OSError t) = t"
| "str_of (IndexError t) = t"

text \<open>One statement after another: an exception ends the sequence.\<close>

definition and_then ::
  "'a outcome \<times> 'w \<Rightarrow> ('a \<Rightarrow> 'w \<Rightarrow> 'b outcome \<times> 'w) \<Rightarrow> 'b outcome \<times> 'w" where
  "and_then r f = (case r of (Return x, w) \<Rightarrow> f x w | (Raise ex, w) \<Rightarrow> (Raise ex, w))"

text \<open>
  The exit status of the process: the argument of \<open>sys.exit\<close>, and 1 when another exception
  reaches the top of the program.
\<close>

fun exit_code :: "exn \<Rightarrow> int" where
  "exit_code (SystemExit code) = code"
| "exit_code ex = 1"

subsection \<open>The console\<close>

text \<open>The console output, one constructor per message the source prints.\<close>

datatype msg =
    MsgCheckingTools
  | MsgMissingTools "string list"
  | MsgAllToolsFound
  | MsgDryRun string string
  | MsgRunning string
  | MsgVersionConflict
  | MsgError string string
  | MsgException string string
  | MsgCompleted string nat
  | MsgGeneratingBurp
  | MsgSummarySaved string
  | MsgGeneratingPrompt
  | MsgPromptGenerated string
  | MsgStart "string option" string string
  | MsgDone "string option" "(string \<times> nat) option"

text \<open>\<open>self.log(message, style)\<close> prints \<open>f"[{style}]>> {message}[/{style}]"\<close>.\<close>

definition log_markup :: "string \<Rightarrow> string \<Rightarrow> string" where
  "log_markup style message = ''['' @ style @ '']>> '' @ message @ ''[/'' @ style @ '']''"

text \<open>\<open>f"{x}"\<close> for an optional string: \<open>None\<close> is printed as \<open>None\<close>.\<close>

fun format_option :: "string option \<Rightarrow> string" where
  "format_option None = ''None''"
| "format_option (Some s) = s"

text \<open>The text of the final panel, lines 265 to 269 of \<open>execute\<close>.\<close>

definition success_msg :: "string option \<Rightarrow> (string \<times> nat) option \<Rightarrow> string" where
  "success_msg proxy_shown burp =
     ''[bold green]Recon Chain Complete![/bold green]'' @ [LF]
       @ (case proxy_shown of
            None \<Rightarrow> []
          | Some p \<Rightarrow> [LF] @ ''[bold yellow]Proxy Active:[/bold yellow] Traffic was routed to '' @ p
                        @ ''. Check Burp HTTP History.'')
       @ (case burp of
            None \<Rightarrow> []
          | Some (burp_file_path, burp_count) \<Rightarrow>
              [LF] @ ''[bold cyan]Burp Import:[/bold cyan] File generated at '' @ burp_file_path
                @ '' ('' @ show_nat burp_count @ '' URLs).'')"

text \<open>
  The markup texts \<open>rich\<close> has to render for a message that holds a value of the run: the
  body, and the panel title when it is not fixed. A message whose text is fixed in the
  source is well-formed markup and has nothing to check.
\<close>

fun msg_markup :: "msg \<Rightarrow> string list" where
  "msg_markup MsgCheckingTools = []"
| "msg_markup (MsgMissingTools missing) = []"
| "msg_markup MsgAllToolsFound = []"
| "msg_markup (MsgDryRun cmd_str step_name) =
     [''[yellow]DRY RUN:[/yellow] '' @ cmd_str, step_name]"
| "msg_markup (MsgRunning step_name) =
     [log_markup ''bold magenta'' (''Running '' @ step_name @ ''...'')]"
| "msg_markup MsgVersionConflict = []"
| "msg_markup (MsgError step_name err) =
     [''[red]Error running '' @ step_name @ '':[/red]'' @ [LF] @ err]"
| "msg_markup (MsgException step_name err) =
     [''[red]Exception during '' @ step_name @ '': '' @ err @ ''[/red]'']"
| "msg_markup (MsgCompleted step_name n) =
     [log_markup ''green''
        (step_name @ '' completed. Found '' @ show_nat n @ '' unique results.'')]"
| "msg_markup MsgGeneratingBurp = []"
| "msg_markup (MsgSummarySaved p) = [log_markup ''bold green'' (''Summary saved to '' @ p)]"
| "msg_markup MsgGeneratingPrompt = []"
| "msg_markup (MsgPromptGenerated p) = [''LLM Prompt generated at: [bold]'' @ p @ ''[/bold]'']"
| "msg_markup (MsgStart tgt out prx) =
     [''Target: '' @ format_option tgt @ [LF] @ ''Output: '' @ out @ [LF] @ ''Proxy: '' @ prx]"
| "msg_markup (MsgDone proxy_shown burp) = [success_msg proxy_shown burp]"

text \<open>The first \<open>MarkupError\<close> among the texts of a message, if there is one.\<close>

fun first_error :: "env \<Rightarrow> string list \<Rightarrow> string option" where
  "first_error e [] = None"
| "first_error e (t # ts) =
     (case markup_error e t of Some err \<Rightarrow> Some err | None \<Rightarrow> first_error e ts)"

text \<open>
  The effects of the program, in the order they happen: a call of \<open>subprocess\<close> with an
  argument vector (the process runs unless the call raises), a directory tree created, a
  file opened by the program itself in a writing mode (\<open>'w'\<close>, \<open>'a'\<close>, \<open>'a+'\<close>: the file is
  created or may be modified), a message printed.
\<close>

datatype event =
    Spawn "string list"
  | Makedirs string
  | Write string
  | Print msg

record world =
  files :: filesystem
  trace :: "event list"

definition emit :: "event \<Rightarrow> world \<Rightarrow> world" where
  "emit ev w = w\<lparr>trace := trace w @ [ev]\<rparr>"

text \<open>\<open>self.log(...)\<close> and \<open>console.print(...)\<close> of a message whose text is fixed.\<close>

definition print_fixed :: "msg \<Rightarrow> world \<Rightarrow> world" where
  "print_fixed m w = emit (Print m) w"

text \<open>
  \<open>self.log(...)\<close> and \<open>console.print(...)\<close> in general: the markup is rendered first, and
  nothing is printed when that raises.
\<close>

definition print :: "env \<Rightarrow> msg \<Rightarrow> world \<Rightarrow> unit outcome \<times> world" where
  "print e m w =
     (case first_error e (msg_markup m) of
        None \<Rightarrow> (Return (), emit (Print m) w)
      | Some err \<Rightarrow> (Raise (MarkupError err), w))"

text \<open>\<open>os.path.exists(p)\<close>.\<close>

definition path_exists :: "world \<Rightarrow> string \<Rightarrow> bool" where
  "path_exists w p = (files w p \<noteq> None)"

text \<open>The text a file opened with \<open>'r'\<close> yields; the caller has checked that it exists.\<close>

definition read_text :: "world \<Rightarrow> string \<Rightarrow> string" where
  "read_text w p = (case files w p of None \<Rightarrow> [] | Some s \<Rightarrow> universal_newlines s)"

definition read_lines :: "world \<Rightarrow> string \<Rightarrow> string list" where
  "read_lines w p = iter_lines (read_text w p)"

text \<open>\<open>open(p, 'w')\<close> followed by writing \<open>s\<close>: the old content is gone.\<close>

definition write_file :: "string \<Rightarrow> string \<Rightarrow> world \<Rightarrow> world" where
  "write_file p s w = emit (Write p) (w\<lparr>files := (files w)(p \<mapsto> s)\<rparr>)"

text \<open>\<open>open(p, 'a')\<close> followed by writing \<open>s\<close>: a missing file is created.\<close>

definition append_file :: "string \<Rightarrow> string \<Rightarrow> world \<Rightarrow> world" where
  "append_file p s w =
     emit (Write p)
       (w\<lparr>files := (files w)(p \<mapsto> (case files w p of None \<Rightarrow> [] | Some old \<Rightarrow> old) @ s)\<rparr>)"

text \<open>One call of \<open>subprocess\<close>: the call is recorded, the files are as the process left them.\<close>

definition spawn :: "env \<Rightarrow> string list \<Rightarrow> world \<Rightarrow> (string + proc) \<times> world" where
  "spawn e argv w =
     (case exec e argv (files w) of
        Inl err \<Rightarrow> (Inl err, emit (Spawn argv) w)
      | Inr (r, fs) \<Rightarrow> (Inr r, emit (Spawn argv) (w\<lparr>files := fs\<rparr>)))"

section \<open>The pipeline\<close>

definition REQUIRED_TOOLS :: "string list" where
  "REQUIRED_TOOLS = [''subfinder'', ''dnsx'', ''naabu'', ''httpx'', ''katana'']"

definition DEFAULT_PORTS :: string where
  "DEFAULT_PORTS = ''80,443,8080,8443,8000,8008,8888''"

text \<open>The fields of \<open>ReconPipeline\<close>, as \<open>__init__\<close> takes them from the parsed arguments.\<close>

record pipeline =
  domain :: "string option"
  domain_list :: "string option"
  output_dir :: string
  proxy :: "string option"
  dry_run :: bool
  llm_analysis :: bool

text \<open>\<open>os.makedirs(p, exist_ok=True)\<close>: the empty path always raises \<open>FileNotFoundError\<close>.\<close>

definition makedirs :: "env \<Rightarrow> string \<Rightarrow> world \<Rightarrow> unit outcome \<times> world" where
  "makedirs e p w =
     (if p = [] then
        (Raise (OSError (''[Errno 2] No such file or directory: '' @ [CHR 0x27, CHR 0x27])), w)
      else (case makedirs_error e (files w) p of
              Some err \<Rightarrow> (Raise (OSError err), w)
            | None \<Rightarrow> (Return (), emit (Makedirs p) w)))"

text \<open>The effect of \<open>__init__\<close>: the output directory is made unless the run is dry.\<close>

definition init :: "pipeline \<Rightarrow> env \<Rightarrow> world \<Rightarrow> unit outcome \<times> world" where
  "init self e w = (if \<not> dry_run self then makedirs e (output_dir self) w else (Return (), w))"

subsection \<open>Locating the tools\<close>

text \<open>
  The \<open>for p in possible_paths\<close> loop of \<open>get_binary_path\<close>, with the fallback to
  \<open>shutil.which(tool_name) or tool_name\<close> when the loop ends.
\<close>

fun probe_paths :: "env \<Rightarrow> string \<Rightarrow> string list \<Rightarrow> world \<Rightarrow> string \<times> world" where
  "probe_paths e tool_name [] w =
     ((if truthy (which e (files w) tool_name) then the (which e (files w) tool_name)
       else tool_name), w)"
| "probe_paths e tool_name (p # ps) w =
     (if path_exists w p then
        (if tool_name = ''httpx'' then
           (case spawn e [p, ''-version''] w of
              (Inl err, w1) \<Rightarrow> probe_paths e tool_name ps w1
            | (Inr r, w1) \<Rightarrow>
                if returncode r = 0 then (p, w1) else probe_paths e tool_name ps w1)
         else (p, w))
      else probe_paths e tool_name ps w)"

definition get_binary_path :: "env \<Rightarrow> string \<Rightarrow> world \<Rightarrow> string \<times> world" where
  "get_binary_path e tool_name w =
     (let possible_paths =
            [expanduser e (''~/go/bin/'' @ tool_name),
             ''/usr/local/bin/'' @ tool_name,
             ''/usr/bin/'' @ tool_name]
      in case spawn e [''go'', ''env'', ''GOBIN''] w of
           (Inl err, w1) \<Rightarrow> probe_paths e tool_name possible_paths w1
         | (Inr r, w1) \<Rightarrow>
             if returncode r = 0 \<and> strip (stdout r) \<noteq> []
             then probe_paths e tool_name
                    (path_join (strip (stdout r)) tool_name # possible_paths) w1
             else probe_paths e tool_name possible_paths w1)"

text \<open>The \<open>for tool in REQUIRED_TOOLS\<close> loop of \<open>check_tools\<close>, collecting \<open>missing\<close>.\<close>

fun check_loop :: "env \<Rightarrow> string list \<Rightarrow> string list \<Rightarrow> world \<Rightarrow> string list \<times> world" where
  "check_loop e [] missing w = (missing, w)"
| "check_loop e (tool # tools) missing w =
     (case get_binary_path e tool w of
        (path, w1) \<Rightarrow>
          if path = tool \<and> \<not> truthy (which e (files w1) tool)
          then check_loop e tools (missing @ [tool]) w1
          else if path \<noteq> tool \<and> \<not> path_exists w1 path
          then check_loop e tools (missing @ [tool]) w1
          else check_loop e tools missing w1)"

text \<open>\<open>check_tools\<close>: \<open>sys.exit(1)\<close> when a tool is missing.\<close>

definition check_tools :: "env \<Rightarrow> world \<Rightarrow> unit outcome \<times> world" where
  "check_tools e w =
     (case check_loop e REQUIRED_TOOLS [] (print_fixed MsgCheckingTools w) of
        (missing, w1) \<Rightarrow>
          if missing \<noteq> [] then (Raise (SystemExit 1), print_fixed (MsgMissingTools missing) w1)
          else (Return (), print_fixed MsgAllToolsFound w1))"

subsection \<open>Running one stage\<close>

text \<open>Lines 108 to 115 of \<open>run_command\<close>: the captured output goes to the output file.\<close>

definition write_output :: "string option \<Rightarrow> bool \<Rightarrow> string \<Rightarrow> world \<Rightarrow> world" where
  "write_output output_file append_output out w =
     (if truthy output_file then
        (let p = the output_file;
             content = strip out;
             written = (if content \<noteq> [] then content @ [LF] else []);
             w1 = (if append_output then append_file p written w else write_file p written w)
         in if \<not> path_exists w1 p then write_file p [] w1 else w1)
      else w)"

text \<open>Lines 118 to 121: the number of lines of the output file that are not blank.\<close>

definition count_lines :: "string option \<Rightarrow> world \<Rightarrow> nat" where
  "count_lines output_file w =
     (if truthy output_file \<and> path_exists w (the output_file)
      then length (filter (\<lambda>line. strip line \<noteq> []) (read_lines w (the output_file)))
      else 0)"

text \<open>
  The body of the \<open>try\<close> of \<open>run_command\<close>, lines 94 to 124; the progress display, which is
  transient, is left out. \<open>subprocess.run\<close> of an empty argument vector raises
  \<open>IndexError\<close> before any process is started.
\<close>

definition run_command_try ::
  "env \<Rightarrow> string list \<Rightarrow> string \<Rightarrow> string option \<Rightarrow> bool \<Rightarrow> world \<Rightarrow> bool outcome \<times> world" where
  "run_command_try e command step_name output_file append_output w =
     (if command = [] then (Raise (IndexError ''list index out of range''), w)
      else case spawn e command w of
        (Inl err, w2) \<Rightarrow> (Raise (OSError err), w2)
      | (Inr result, w2) \<Rightarrow>
          if returncode result \<noteq> 0 then
            (if contains (hd command) ''httpx''
                     \<and> contains (stderr result) ''No such option''
             then (Return False, print_fixed MsgVersionConflict w2)
             else and_then (print e (MsgError step_name (stderr result)) w2)
                    (\<lambda>u w3. (Return False, w3)))
          else
            (let w3 = write_output output_file append_output (stdout result) w2
             in and_then (print e (MsgCompleted step_name (count_lines output_file w3)) w3)
                  (\<lambda>u w4. (Return True, w4))))"

text \<open>
  \<open>run_command\<close>. The dry-run panel and the first log line are printed outside the \<open>try\<close>;
  an exception of the body is caught by \<open>except Exception as e\<close>, whose own message holds
  the text of the exception and is printed outside any \<open>try\<close> as well.
\<close>

definition run_command ::
  "pipeline \<Rightarrow> env \<Rightarrow> string list \<Rightarrow> string \<Rightarrow> string option \<Rightarrow> bool \<Rightarrow> world
     \<Rightarrow> bool outcome \<times> world" where
  "run_command self e command step_name output_file append_output w =
     (if dry_run self then
        and_then (print e (MsgDryRun (join '' '' command) step_name) w)
          (\<lambda>u w1. (Return True, w1))
      else
        and_then (print e (MsgRunning step_name) w)
          (\<lambda>u w1.
             case run_command_try e command step_name output_file append_output w1 of
               (Return ok, w2) \<Rightarrow> (Return ok, w2)
             | (Raise (SystemExit code), w2) \<Rightarrow> (Raise (SystemExit code), w2)
             | (Raise ex, w2) \<Rightarrow>
                 and_then (print e (MsgException step_name (str_of ex)) w2)
                   (\<lambda>u w3. (Return False, w3))))"

subsection \<open>The consolidated URL file\<close>

text \<open>The body of the first loop of \<open>create_burp_file\<close>, over the lines of \<open>httpx.txt\<close>.\<close>

definition add_httpx_line :: "string \<Rightarrow> string set \<Rightarrow> string set" where
  "add_httpx_line line unique_urls =
     (let clean_url = strip (hd (split SPACE line))
      in if startswith clean_url ''http'' then insert clean_url unique_urls else unique_urls)"

text \<open>The body of the second loop, over the lines of \<open>katana.txt\<close>.\<close>

definition add_katana_line :: "string \<Rightarrow> string set \<Rightarrow> string set" where
  "add_katana_line line unique_urls =
     (let url = strip line
      in if startswith url ''http'' then insert url unique_urls else unique_urls)"

text \<open>The set \<open>unique_urls\<close> when the two loops are over.\<close>

definition collect_urls :: "pipeline \<Rightarrow> world \<Rightarrow> string set" where
  "collect_urls self w =
     (let httpx_file = path_join (output_dir self) ''httpx.txt'';
          katana_file = path_join (output_dir self) ''katana.txt'';
          unique_urls = {};
          unique_urls = (if path_exists w httpx_file
                         then fold add_httpx_line (read_lines w httpx_file) unique_urls
                         else unique_urls);
          unique_urls = (if path_exists w katana_file
                         then fold add_katana_line (read_lines w katana_file) unique_urls
                         else unique_urls)
      in unique_urls)"

text \<open>
  \<open>create_burp_file\<close>: \<open>None\<close> in a dry run, otherwise the path of the file written and
  \<open>len(unique_urls)\<close>.
\<close>

definition create_burp_file :: "pipeline \<Rightarrow> world \<Rightarrow> (string \<times> nat) option \<times> world" where
  "create_burp_file self w =
     (if dry_run self then (None, w)
      else
        (let w1 = print_fixed MsgGeneratingBurp w;
             burp_file = path_join (output_dir self) ''urls_for_burp.txt'';
             unique_urls = collect_urls self w1;
             w2 = write_file burp_file
                    (concat (map (\<lambda>url. url @ [LF]) (sorted_list_of_set unique_urls))) w1
         in (Some (burp_file, card unique_urls), w2)))"

subsection \<open>The summary\<close>

definition summary_files :: "(string \<times> string) list" where
  "summary_files =
     [(''subdomains'', ''subfinder.txt''), (''resolved'', ''dnsx.txt''),
      (''ports'', ''naabu.txt''), (''http_services'', ''httpx.txt''),
      (''endpoints'', ''katana.txt''), (''burp_import'', ''urls_for_burp.txt'')]"

text \<open>One round of the loop of \<open>generate_summary\<close>: the value stored under \<open>key\<close>.\<close>

definition stat_of :: "pipeline \<Rightarrow> world \<Rightarrow> string \<Rightarrow> nat" where
  "stat_of self w filename =
     (let filepath = path_join (output_dir self) filename
      in if path_exists w filepath then length (read_lines w filepath) else 0)"

definition generate_summary :: "pipeline \<Rightarrow> env \<Rightarrow> world \<Rightarrow> unit outcome \<times> world" where
  "generate_summary self e w =
     (if dry_run self then (Return (), w)
      else
        (let summ = \<lparr>target = py_or (domain self) (domain_list self),
                     timestamp = now_isoformat e,
                     stats = map (\<lambda>(key, filename). (key, stat_of self w filename))
                               summary_files\<rparr>;
             summary_path = path_join (output_dir self) ''summary.json'';
             w1 = write_file summary_path (json_summary e summ) w
         in print e (MsgSummarySaved summary_path) w1))"

subsection \<open>The analysis prompt\<close>

definition run_llm_advisory :: "pipeline \<Rightarrow> env \<Rightarrow> world \<Rightarrow> unit outcome \<times> world" where
  "run_llm_advisory self e w =
     (if dry_run self then (Return (), w)
      else
        (let katana_file = path_join (output_dir self) ''katana.txt''
         in if \<not> path_exists w katana_file then (Return (), w)
            else
              (let w1 = print_fixed MsgGeneratingPrompt w;
                   urls = map strip (filter (\<lambda>line. strip line \<noteq> [])
                                       (read_lines w1 katana_file))
               in if urls = [] then (Return (), w1)
                  else
                    (let prompt_content =
                           ''Analyze these URLs and find high-risk endpoints:'' @ [LF]
                             @ json_urls e (take 200 urls);
                         prompt_path = path_join (output_dir self) ''llm_prompt.txt'';
                         w2 = write_file prompt_path prompt_content w1
                     in print e (MsgPromptGenerated prompt_path) w2))))"

subsection \<open>The stages\<close>

definition cmd_sub :: "pipeline \<Rightarrow> string \<Rightarrow> string \<Rightarrow> string list" where
  "cmd_sub self bin_subfinder subfinder_out =
     [bin_subfinder, ''-all'', ''-o'', subfinder_out]
       @ (if truthy (domain self) then [''-d'', the (domain self)]
          else if truthy (domain_list self) then [''-dL'', the (domain_list self)]
          else [])"

text \<open>Lines 219 to 222 of \<open>execute\<close>: the root domain is added to \<open>subfinder.txt\<close>.\<close>

definition ensure_root_domain :: "pipeline \<Rightarrow> string \<Rightarrow> world \<Rightarrow> world" where
  "ensure_root_domain self subfinder_out w =
     (if truthy (domain self) \<and> \<not> dry_run self \<and> path_exists w subfinder_out then
        (let content = read_text w subfinder_out
         in if \<not> contains content (the (domain self))
            then append_file subfinder_out ([LF] @ the (domain self) @ [LF]) w
            else append_file subfinder_out [] w)
      else w)"

text \<open>The body of the loop of lines 243 to 246: what one line adds to the crawl input.\<close>

definition clean_line :: "string \<Rightarrow> string" where
  "clean_line line =
     (let clean_url = hd (split SPACE line)
      in if strip clean_url \<noteq> [] then strip clean_url @ [LF] else [])"

text \<open>Lines 240 to 248: the crawl input, and the path the crawler is given.\<close>

definition katana_prep :: "pipeline \<Rightarrow> string \<Rightarrow> world \<Rightarrow> string \<times> world" where
  "katana_prep self httpx_out w =
     (let katana_input = path_join (output_dir self) ''katana_input_clean.txt''
      in if \<not> dry_run self \<and> path_exists w httpx_out
         then (katana_input,
               write_file katana_input (concat (map clean_line (read_lines w httpx_out))) w)
         else (httpx_out, w))"

definition cmd_httpx :: "pipeline \<Rightarrow> string \<Rightarrow> string \<Rightarrow> string \<Rightarrow> string list" where
  "cmd_httpx self bin_httpx naabu_out httpx_out =
     [bin_httpx, ''-l'', naabu_out, ''-title'', ''-tech-detect'', ''-status-code'',
      ''-o'', httpx_out]
       @ (if truthy (proxy self) then [''-http-proxy'', the (proxy self)] else [])"

definition cmd_katana :: "pipeline \<Rightarrow> string \<Rightarrow> string \<Rightarrow> string \<Rightarrow> string list" where
  "cmd_katana self bin_katana katana_input katana_out =
     [bin_katana, ''-list'', katana_input, ''-o'', katana_out, ''-jc'', ''-kf'', ''all'',
      ''-c'', ''10'', ''-d'', ''2'']
       @ (if truthy (proxy self) then [''-proxy'', the (proxy self)] else [])"

text \<open>
  Sections 1 to 5 of \<open>execute\<close>, from the five located binaries on: \<open>False\<close> when one of
  the \<open>if not self.run_command(...): return\<close> lines returned.
\<close>

definition stages ::
  "pipeline \<Rightarrow> env \<Rightarrow> string \<Rightarrow> string \<Rightarrow> string \<Rightarrow> string \<Rightarrow> string \<Rightarrow> world
     \<Rightarrow> bool outcome \<times> world" where
  "stages self e bin_subfinder bin_dnsx bin_naabu bin_httpx bin_katana w =
     (let subfinder_out = path_join (output_dir self) ''subfinder.txt''
      in and_then (run_command self e (cmd_sub self bin_subfinder subfinder_out)
                     ''Subfinder'' (Some subfinder_out) False w)
           (\<lambda>ok1 w1.
      if \<not> ok1 then (Return False, w1) else
     (let w1r = ensure_root_domain self subfinder_out w1;
          dnsx_out = path_join (output_dir self) ''dnsx.txt''
      in and_then (run_command self e [bin_dnsx, ''-l'', subfinder_out, ''-o'', dnsx_out]
                     ''DNSx'' (Some dnsx_out) False w1r)
           (\<lambda>ok2 w2.
      if \<not> ok2 then (Return False, w2) else
     (let naabu_out = path_join (output_dir self) ''naabu.txt''
      in and_then (run_command self e
                     [bin_naabu, ''-l'', dnsx_out, ''-p'', DEFAULT_PORTS, ''-o'', naabu_out]
                     ''Naabu'' (Some naabu_out) False w2)
           (\<lambda>ok3 w3.
      if \<not> ok3 then (Return False, w3) else
     (let httpx_out = path_join (output_dir self) ''httpx.txt''
      in and_then (run_command self e (cmd_httpx self bin_httpx naabu_out httpx_out)
                     ''HTTPx'' (Some httpx_out) False w3)
           (\<lambda>ok4 w4.
      if \<not> ok4 then (Return False, w4) else
     (case katana_prep self httpx_out w4 of
        (katana_input, w4p) \<Rightarrow>
     (let katana_out = path_join (output_dir self) ''katana.txt''
      in and_then (run_command self e (cmd_katana self bin_katana katana_input katana_out)
                     ''Katana'' (Some katana_out) False w4p)
           (\<lambda>ok5 w5.
      if \<not> ok5 then (Return False, w5) else (Return True, w5))))))))))))"

text \<open>Sections 6 and 7 of \<open>execute\<close> and the final panel.\<close>

definition finalize :: "pipeline \<Rightarrow> env \<Rightarrow> world \<Rightarrow> unit outcome \<times> world" where
  "finalize self e w =
     (case (if \<not> dry_run self then create_burp_file self w else (None, w)) of
        (burp, w1) \<Rightarrow>
          and_then (generate_summary self e w1)
            (\<lambda>u w2.
          and_then (if llm_analysis self then run_llm_advisory self e w2 else (Return (), w2))
            (\<lambda>u w3.
          print e (MsgDone (if truthy (proxy self) then proxy self else None)
                     (case burp of
                        None \<Rightarrow> None
                      | Some (burp_file_path, burp_count) \<Rightarrow>
                          if burp_file_path \<noteq> [] then Some (burp_file_path, burp_count)
                          else None)) w3)))"

text \<open>Lines 205 to 209 of \<open>execute\<close>: the five binaries, in the order of the stages.\<close>

type_synonym binaries = "string \<times> string \<times> string \<times> string \<times> string"

definition locate_tools :: "env \<Rightarrow> world \<Rightarrow> binaries \<times> world" where
  "locate_tools e w =
     (case get_binary_path e ''subfinder'' w of (bin_subfinder, w3) \<Rightarrow>
      case get_binary_path e ''dnsx'' w3 of (bin_dnsx, w4) \<Rightarrow>
      case get_binary_path e ''naabu'' w4 of (bin_naabu, w5) \<Rightarrow>
      case get_binary_path e ''httpx'' w5 of (bin_httpx, w6) \<Rightarrow>
      case get_binary_path e ''katana'' w6 of (bin_katana, w7) \<Rightarrow>
        ((bin_subfinder, bin_dnsx, bin_naabu, bin_httpx, bin_katana), w7))"

text \<open>
  Lines 202 to 209 of \<open>execute\<close>, all that comes before the first stage: the check of the
  tools, the opening panel, the five binaries.
\<close>

definition preflight :: "pipeline \<Rightarrow> env \<Rightarrow> world \<Rightarrow> binaries outcome \<times> world" where
  "preflight self e w =
     and_then (check_tools e w)
       (\<lambda>u w1.
     and_then (print e (MsgStart (py_or (domain self) (domain_list self)) (output_dir self)
                          (if truthy (proxy self) then the (proxy self) else ''None'')) w1)
       (\<lambda>u w2.
     case locate_tools e w2 of (bins, w7) \<Rightarrow> (Return bins, w7)))"

text \<open>
  \<open>execute\<close>: it returns \<open>None\<close> after a failed stage as well as at its end, so both are
  \<open>Return ()\<close>; \<open>sys.exit(1)\<close> of \<open>check_tools\<close> and an exception that nothing catches are
  \<open>Raise\<close>.
\<close>

definition execute :: "pipeline \<Rightarrow> env \<Rightarrow> world \<Rightarrow> unit outcome \<times> world" where
  "execute self e w =
     and_then (preflight self e w)
       (\<lambda>(bin_subfinder, bin_dnsx, bin_naabu, bin_httpx, bin_katana) w7.
     and_then (stages self e bin_subfinder bin_dnsx bin_naabu bin_httpx bin_katana w7)
       (\<lambda>ok w8. if ok then finalize self e w8 else (Return (), w8)))"

text \<open>
  \<open>main\<close>, from the parsed arguments on: \<open>ReconPipeline(args).execute()\<close> and the exit
  status of the process, 0 when \<open>execute\<close> returns.
\<close>

definition main :: "pipeline \<Rightarrow> env \<Rightarrow> world \<Rightarrow> int \<times> world" where
  "main args e w =
     (case and_then (init args e w) (\<lambda>u w0. execute args e w0) of
        (Return u, w1) \<Rightarrow> (0, w1)
      | (Raise ex, w1) \<Rightarrow> (exit_code ex, w1))"


section \<open>Observations used by the properties\<close>

text \<open>A line as a reader sees it: the text of the line without its terminating \<open>\n\<close>.\<close>

definition line_text :: "string \<Rightarrow> string" where
  "line_text l = (if l \<noteq> [] \<and> last l = LF then butlast l else l)"

text \<open>The lines of a file, in file order.\<close>

definition file_lines :: "world \<Rightarrow> string \<Rightarrow> string list" where
  "file_lines w p = map line_text (read_lines w p)"

text \<open>
  The total number of lines of a file, blank ones included, and 0 for a file that is not
  there: the count the summary is specified to hold.
\<close>

definition raw_line_count :: "world \<Rightarrow> string \<Rightarrow> nat" where
  "raw_line_count w p =
     (case files w p of None \<Rightarrow> 0 | Some s \<Rightarrow> length (iter_lines (universal_newlines s)))"

text \<open>
  The leading whitespace-delimited token of a line, in the words of the specification:
  leading whitespace is skipped and the token ends before the next whitespace character.
\<close>

definition leading_token :: "string \<Rightarrow> string" where
  "leading_token line = takeWhile (\<lambda>c. \<not> isspace c) (dropWhile isspace line)"

text \<open>The events of a run: what the trace has gained between two worlds.\<close>

definition events_since :: "world \<Rightarrow> world \<Rightarrow> event list" where
  "events_since w w' = drop (length (trace w)) (trace w')"

text \<open>
  The events of \<open>check_tools\<close> and \<open>get_binary_path\<close>: the probes \<open>go env GOBIN\<close> and
  \<open><path> -version\<close>, and the messages about the tools.
\<close>

fun locator_event :: "event \<Rightarrow> bool" where
  "locator_event (Spawn argv) =
     (argv = [''go'', ''env'', ''GOBIN''] \<or> (length argv = 2 \<and> argv ! 1 = ''-version''))"
| "locator_event (Print MsgCheckingTools) = True"
| "locator_event (Print MsgAllToolsFound) = True"
| "locator_event (Print (MsgMissingTools missing)) = True"
| "locator_event ev = False"

text \<open>
  The events a dry run may show: messages and the probes of the tool locator, but no file
  opened for writing, no directory made and no other process.
\<close>

fun dry_run_event :: "event \<Rightarrow> bool" where
  "dry_run_event (Spawn argv) =
     (argv = [''go'', ''env'', ''GOBIN''] \<or> (length argv = 2 \<and> argv ! 1 = ''-version''))"
| "dry_run_event (Print m) = True"
| "dry_run_event (Makedirs p) = False"
| "dry_run_event (Write p) = False"

text \<open>The stages a dry run reports, with the command line printed for each.\<close>

fun dry_run_report :: "event \<Rightarrow> (string \<times> string) list" where
  "dry_run_report (Print (MsgDryRun cmd_str step_name)) = [(step_name, cmd_str)]"
| "dry_run_report ev = []"

definition dry_run_reports :: "event list \<Rightarrow> (string \<times> string) list" where
  "dry_run_reports evs = concat (map dry_run_report evs)"

text \<open>\<open>adds P w w'\<close>: the trace has grown from \<open>w\<close> to \<open>w'\<close> by events that all satisfy \<open>P\<close>.\<close>

definition adds :: "(event \<Rightarrow> bool) \<Rightarrow> world \<Rightarrow> world \<Rightarrow> bool" where
  "adds P w w' = (\<exists>evs. trace w' = trace w @ evs \<and> list_all P evs)"


text \<open>
  The report of a failed stage: one of the three messages \<open>run_command\<close> prints before it
  returns \<open>False\<close>.
\<close>

fun is_failure :: "event \<Rightarrow> bool" where
  "is_failure (Print (MsgError step_name err)) = True"
| "is_failure (Print MsgVersionConflict) = True"
| "is_failure (Print (MsgException step_name err)) = True"
| "is_failure ev = False"

text \<open>The report printed by the \<open>except\<close> clause of \<open>run_command\<close>.\<close>

fun is_exception :: "event \<Rightarrow> bool" where
  "is_exception (Print (MsgException step_name err)) = True"
| "is_exception ev = False"

fun started_stage :: "event \<Rightarrow> string list" where
  "started_stage (Print (MsgRunning step_name)) = [step_name]"
| "started_stage ev = []"

fun is_completed :: "event \<Rightarrow> bool" where
  "is_completed (Print (MsgCompleted step_name n)) = True"
| "is_completed ev = False"

fun written_file :: "event \<Rightarrow> string list" where
  "written_file (Write p) = [p]"
| "written_file ev = []"

fun is_done :: "event \<Rightarrow> bool" where
  "is_done (Print (MsgDone p b)) = True"
| "is_done ev = False"

text \<open>The stages that were started, in order, and the number of stages that completed.\<close>

definition stages_started :: "event list \<Rightarrow> string list" where
  "stages_started evs = concat (map started_stage evs)"

definition stages_completed :: "event list \<Rightarrow> nat" where
  "stages_completed evs = length (filter is_completed evs)"

text \<open>The files the program itself opened for writing, in order.\<close>

definition files_written :: "event list \<Rightarrow> string list" where
  "files_written evs = concat (map written_file evs)"

text \<open>The five stages in their fixed order, and the output file of each.\<close>

definition stage_names :: "string list" where
  "stage_names = [''Subfinder'', ''DNSx'', ''Naabu'', ''HTTPx'', ''Katana'']"

definition stage_outputs :: "pipeline \<Rightarrow> string list" where
  "stage_outputs self =
     map (path_join (output_dir self))
       [''subfinder.txt'', ''dnsx.txt'', ''naabu.txt'', ''httpx.txt'', ''katana.txt'']"

text \<open>
  The files that belong to the first \<open>k\<close> stages: their output files, and the crawl input
  once the fourth stage is complete.
\<close>

definition artifacts_before :: "pipeline \<Rightarrow> nat \<Rightarrow> string set" where
  "artifacts_before self k =
     set (take k (stage_outputs self))
       \<union> (if 4 \<le> k then {path_join (output_dir self) ''katana_input_clean.txt''} else {})"

text \<open>
  The events of a run in which the first \<open>k\<close> stages have completed and none has failed:
  no failure report, no final panel, \<open>k\<close> completions, the first \<open>k\<close> stages started, and
  only files of these stages opened for writing.
\<close>

definition progress :: "pipeline \<Rightarrow> nat \<Rightarrow> event list \<Rightarrow> bool" where
  "progress self k evs =
     (filter is_failure evs = [] \<and> filter is_done evs = [] \<and> stages_completed evs = k
      \<and> stages_started evs = take k stage_names
      \<and> set (files_written evs) \<subseteq> artifacts_before self k)"

text \<open>
  The events of a run that stopped at the failure of the stage after the first \<open>k\<close>: the
  failure report is the last event and the only one of its kind. The failed stage may have
  opened its own output file before an exception was caught; when the report is not that
  of an exception, it has not.
\<close>

definition halted :: "pipeline \<Rightarrow> nat \<Rightarrow> event list \<Rightarrow> bool" where
  "halted self k evs =
     (evs \<noteq> [] \<and> is_failure (last evs) \<and> filter is_failure evs = [last evs]
      \<and> filter is_done evs = [] \<and> stages_completed evs = k
      \<and> stages_started evs = take (Suc k) stage_names
      \<and> set (files_written evs)
          \<subseteq> artifacts_before self k
              \<union> (if is_exception (last evs) then {stage_outputs self ! k} else {}))"

text \<open>An event that is not the report of a failed stage.\<close>

definition quiet :: "event \<Rightarrow> bool" where
  "quiet ev = (\<not> is_failure ev)"

text \<open>
  The argument vectors of the five stages as \<open>execute\<close> builds them, for given binaries and a
  given input file of the crawler.
\<close>

definition stage_commands :: "pipeline \<Rightarrow> binaries \<Rightarrow> string \<Rightarrow> string list list" where
  "stage_commands self bins katana_input =
     (case bins of
        (bin_subfinder, bin_dnsx, bin_naabu, bin_httpx, bin_katana) \<Rightarrow>
          [cmd_sub self bin_subfinder (path_join (output_dir self) ''subfinder.txt''),
           [bin_dnsx, ''-l'', path_join (output_dir self) ''subfinder.txt'',
            ''-o'', path_join (output_dir self) ''dnsx.txt''],
           [bin_naabu, ''-l'', path_join (output_dir self) ''dnsx.txt'', ''-p'', DEFAULT_PORTS,
            ''-o'', path_join (output_dir self) ''naabu.txt''],
           cmd_httpx self bin_httpx (path_join (output_dir self) ''naabu.txt'')
             (path_join (output_dir self) ''httpx.txt''),
           cmd_katana self bin_katana katana_input
             (path_join (output_dir self) ''katana.txt'')])"

text \<open>The external commands of a run that are not probes of the tool locator, in order.\<close>

fun stage_spawn :: "event \<Rightarrow> string list list" where
  "stage_spawn (Spawn argv) = (if locator_event (Spawn argv) then [] else [argv])"
| "stage_spawn ev = []"

definition stage_spawns :: "event list \<Rightarrow> string list list" where
  "stage_spawns evs = concat (map stage_spawn evs)"

text \<open>
  The places \<open>get_binary_path\<close> looks at for a tool, given the files: the directory
  \<open>go env GOBIN\<close> prints, when it prints one, and the three fixed directories.
\<close>

definition candidate_paths :: "env \<Rightarrow> filesystem \<Rightarrow> string \<Rightarrow> string list" where
  "candidate_paths e fs tool_name =
     (case exec e [''go'', ''env'', ''GOBIN''] fs of
        Inl err \<Rightarrow> []
      | Inr (r, fs') \<Rightarrow>
          if returncode r = 0 \<and> strip (stdout r) \<noteq> []
          then [path_join (strip (stdout r)) tool_name] else [])
     @ [expanduser e (''~/go/bin/'' @ tool_name), ''/usr/local/bin/'' @ tool_name,
        ''/usr/bin/'' @ tool_name]"

text \<open>
  A tool that cannot be located: none of these places holds it and \<open>shutil.which\<close> does
  not find it.
\<close>

definition unlocatable :: "env \<Rightarrow> filesystem \<Rightarrow> string \<Rightarrow> bool" where
  "unlocatable e fs tool_name =
     (\<not> truthy (which e fs tool_name)
      \<and> list_all (\<lambda>p. fs p = None) (candidate_paths e fs tool_name))"

text \<open>External commands that leave the files as they are.\<close>

definition keeps_files :: "env \<Rightarrow> bool" where
  "keeps_files e = (\<forall>argv fs r fs'. exec e argv fs = Inr (r, fs') \<longrightarrow> fs' = fs)"

text \<open>A message the console renders: none of its markup texts raises.\<close>

definition renders :: "env \<Rightarrow> msg \<Rightarrow> bool" where
  "renders e m = (first_error e (msg_markup m) = None)"

text \<open>The text of the opening panel of \<open>execute\<close>.\<close>

definition start_text :: "pipeline \<Rightarrow> string" where
  "start_text self =
     hd (msg_markup (MsgStart (py_or (domain self) (domain_list self)) (output_dir self)
                       (if truthy (proxy self) then the (proxy self) else ''None'')))"


section \<open>Example inputs\<close>

text \<open>A run on \<open>b.example\<close> whose output directory holds the two URL artifacts.\<close>

definition burp_args :: pipeline where
  "burp_args = \<lparr>domain = Some ''b.example'', domain_list = None, output_dir = ''out'',
                proxy = None, dry_run = False, llm_analysis = False\<rparr>"

definition burp_world :: world where
  "burp_world =
     \<lparr>files = [''out/httpx.txt'' \<mapsto> ''https://b.example/p [301]\<newline>'',
               ''out/katana.txt'' \<mapsto> ''https://b.example/p\<newline>http://a.example\<newline>''],
      trace = []\<rparr>"

text \<open>A world without any file.\<close>

definition empty_world :: world where
  "empty_world = \<lparr>files = Map.empty, trace = []\<rparr>"

text \<open>A tool run that exits with status 0 and prints nothing.\<close>

definition silent :: proc where
  "silent = \<lparr>returncode = 0, stdout = [], stderr = []\<rparr>"

text \<open>
  An environment in which every external command is such a run and changes no file, every
  message is rendered and every directory can be made.
\<close>

definition quiet_env :: env where
  "quiet_env = \<lparr>exec = (\<lambda>argv fs. Inr (silent, fs)),
                which = (\<lambda>fs tool_name. None),
                expanduser = (\<lambda>p. ''/root'' @ tl p),
                now_isoformat = ''2024-05-01T12:00:00'',
                json_summary = (\<lambda>s. concat (map fst (stats s))),
                json_urls = (\<lambda>urls. concat (map (\<lambda>u. u @ '','') urls)),
                markup_error = (\<lambda>t. None),
                makedirs_error = (\<lambda>fs p. None)\<rparr>"

text \<open>An output directory whose subdomains artifact has a blank line.\<close>

definition summary_world :: world where
  "summary_world =
     \<lparr>files = [''out/subfinder.txt'' \<mapsto> ''a.b.example\<newline>\<newline>b.example\<newline>''],
      trace = []\<rparr>"

text \<open>A crawl artifact with padded and blank lines.\<close>

definition prompt_world :: world where
  "prompt_world =
     \<lparr>files = [''out/katana.txt'' \<mapsto> '' http://a.example/x \<newline>\<newline>http://a.example/y\<newline>''],
      trace = []\<rparr>"

text \<open>An http-services line whose annotation is set off by a tab.\<close>

definition tab_line :: string where
  "tab_line = ''https://a.example'' @ [CHR 0x09] @ ''[200]'' @ [LF]"

definition tab_world :: world where
  "tab_world = \<lparr>files = [''out/httpx.txt'' \<mapsto> tab_line], trace = []\<rparr>"

text \<open>A run on \<open>example.com\<close> in which the enumeration tool reports one subdomain.\<close>

definition root_args :: pipeline where
  "root_args = \<lparr>domain = Some ''example.com'', domain_list = None, output_dir = ''out'',
                proxy = None, dry_run = False, llm_analysis = False\<rparr>"

definition subfinder_env :: env where
  "subfinder_env = quiet_env\<lparr>exec := (\<lambda>argv fs.
       Inr (\<lparr>returncode = 0, stdout = ''www.example.com\<newline>'', stderr = []\<rparr>, fs))\<rparr>"

text \<open>
  A machine with the five tools under \<open>/usr/bin\<close> and without \<open>go\<close>, on which the
  enumeration tool reports one subdomain and the resolver then exits with status 1.
\<close>

definition tools_files :: filesystem where
  "tools_files = [''/usr/bin/subfinder'' \<mapsto> [], ''/usr/bin/dnsx'' \<mapsto> [], ''/usr/bin/naabu'' \<mapsto> [],
                  ''/usr/bin/httpx'' \<mapsto> [], ''/usr/bin/katana'' \<mapsto> []]"

definition tools_world :: world where
  "tools_world = \<lparr>files = tools_files, trace = []\<rparr>"

definition failing_env :: env where
  "failing_env = quiet_env\<lparr>exec := (\<lambda>argv fs.
       if argv = [''go'', ''env'', ''GOBIN''] then Inl ''[Errno 2] No such file or directory: go''
       else if hd argv = ''/usr/bin/subfinder''
       then Inr (\<lparr>returncode = 0, stdout = ''www.example.com\<newline>'', stderr = []\<rparr>, fs)
       else if hd argv = ''/usr/bin/dnsx''
       then Inr (\<lparr>returncode = 1, stdout = [], stderr = ''boom''\<rparr>, fs)
       else Inr (silent, fs))\<rparr>"

text \<open>The events of \<open>execute\<close> on that machine for the target \<open>example.com\<close>.\<close>

definition failing_trace :: "event list" where
  "failing_trace =
     [Print MsgCheckingTools,
      Spawn [''go'', ''env'', ''GOBIN''], Spawn [''go'', ''env'', ''GOBIN''],
      Spawn [''go'', ''env'', ''GOBIN''], Spawn [''go'', ''env'', ''GOBIN''],
      Spawn [''/usr/bin/httpx'', ''-version''], Spawn [''go'', ''env'', ''GOBIN''],
      Print MsgAllToolsFound,
      Print (MsgStart (Some ''example.com'') ''out'' ''None''),
      Spawn [''go'', ''env'', ''GOBIN''], Spawn [''go'', ''env'', ''GOBIN''],
      Spawn [''go'', ''env'', ''GOBIN''], Spawn [''go'', ''env'', ''GOBIN''],
      Spawn [''/usr/bin/httpx'', ''-version''], Spawn [''go'', ''env'', ''GOBIN''],
      Print (MsgRunning ''Subfinder''),
      Spawn [''/usr/bin/subfinder'', ''-all'', ''-o'', ''out/subfinder.txt'', ''-d'', ''example.com''],
      Write ''out/subfinder.txt'', Print (MsgCompleted ''Subfinder'' 1),
      Write ''out/subfinder.txt'', Print (MsgRunning ''DNSx''),
      Spawn [''/usr/bin/dnsx'', ''-l'', ''out/subfinder.txt'', ''-o'', ''out/dnsx.txt''],
      Print (MsgError ''DNSx'' ''boom'')]"


text \<open>The same run as a dry run, and its events on the machine with the five tools.\<close>

definition dry_args :: pipeline where
  "dry_args = root_args\<lparr>dry_run := True\<rparr>"

definition dry_trace :: "event list" where
  "dry_trace =
     [Print MsgCheckingTools,
      Spawn [''go'', ''env'', ''GOBIN''], Spawn [''go'', ''env'', ''GOBIN''],
      Spawn [''go'', ''env'', ''GOBIN''], Spawn [''go'', ''env'', ''GOBIN''],
      Spawn [''/usr/bin/httpx'', ''-version''], Spawn [''go'', ''env'', ''GOBIN''],
      Print MsgAllToolsFound,
      Print (MsgStart (Some ''example.com'') ''out'' ''None''),
      Spawn [''go'', ''env'', ''GOBIN''], Spawn [''go'', ''env'', ''GOBIN''],
      Spawn [''go'', ''env'', ''GOBIN''], Spawn [''go'', ''env'', ''GOBIN''],
      Spawn [''/usr/bin/httpx'', ''-version''], Spawn [''go'', ''env'', ''GOBIN''],
      Print (MsgDryRun ''/usr/bin/subfinder -all -o out/subfinder.txt -d example.com'' ''Subfinder''),
      Print (MsgDryRun ''/usr/bin/dnsx -l out/subfinder.txt -o out/dnsx.txt'' ''DNSx''),
      Print (MsgDryRun ''/usr/bin/naabu -l out/dnsx.txt -p 80,443,8080,8443,8000,8008,8888 -o out/naabu.txt''
               ''Naabu''),
      Print (MsgDryRun ''/usr/bin/httpx -l out/naabu.txt -title -tech-detect -status-code -o out/httpx.txt''
               ''HTTPx''),
      Print (MsgDryRun ''/usr/bin/katana -list out/httpx.txt -o out/katana.txt -jc -kf all -c 10 -d 2''
               ''Katana''),
      Print (MsgDone None None)]"


section \<open>Basic facts about texts and the world\<close>

lemma split_not_Nil: "split sep s \<noteq> []"
  by (induction s) (auto split: list.splits)

lemma hd_split: "hd (split sep s) = takeWhile (\<lambda>c. c \<noteq> sep) s"
  by (induction s) (auto split: list.splits simp: split_not_Nil)

lemma files_emit: "files (emit ev w) = files w"
  by (simp add: emit_def)

lemma trace_emit: "trace (emit ev w) = trace w @ [ev]"
  by (simp add: emit_def)

lemma files_print_fixed: "files (print_fixed m w) = files w"
  by (simp add: print_fixed_def files_emit)

lemma trace_print_fixed: "trace (print_fixed m w) = trace w @ [Print m]"
  by (simp add: print_fixed_def trace_emit)

lemma and_then_Return: "and_then (Return x, w) f = f x w"
  by (simp add: and_then_def)

lemma and_then_Raise: "and_then (Raise ex, w) f = (Raise ex, w)"
  by (simp add: and_then_def)

lemma print_outcome:
  "print e m w = (Return (), emit (Print m) w) \<or> (\<exists>t. print e m w = (Raise (MarkupError t), w))"
  by (simp add: print_def split: option.splits)

lemma first_error_renders: "markup_error e = (\<lambda>t. None) \<Longrightarrow> first_error e ts = None"
  by (induction ts) simp_all

lemma print_renders:
  "first_error e (msg_markup m) = None \<Longrightarrow> print e m w = (Return (), emit (Print m) w)"
  by (simp add: print_def)

lemma print_renders_ok: "renders e m \<Longrightarrow> print e m w = (Return (), emit (Print m) w)"
  by (simp add: print_def renders_def)

lemma files_print: "files (snd (print e m w)) = files w"
  by (simp add: print_def files_emit split: option.splits)

lemma files_write_file: "files (write_file p s w) = (files w)(p \<mapsto> s)"
  by (simp add: write_file_def files_emit)

lemma trace_write_file: "trace (write_file p s w) = trace w @ [Write p]"
  by (simp add: write_file_def trace_emit)

lemma files_append_file:
  "files (append_file p s w) = (files w)(p \<mapsto> (case files w p of None \<Rightarrow> [] | Some old \<Rightarrow> old) @ s)"
  by (simp add: append_file_def files_emit)

lemma trace_append_file: "trace (append_file p s w) = trace w @ [Write p]"
  by (simp add: append_file_def trace_emit)

lemma path_exists_print_fixed: "path_exists (print_fixed m w) p = path_exists w p"
  by (simp add: path_exists_def files_print_fixed)

lemma read_lines_print_fixed: "read_lines (print_fixed m w) p = read_lines w p"
  by (simp add: read_lines_def read_text_def files_print_fixed)

lemma universal_newlines_no_CR: "CR \<notin> set (universal_newlines s)"
  by (induction s rule: universal_newlines.induct) (auto simp: CR_def LF_def)

lemma universal_newlines_id: "CR \<notin> set s \<Longrightarrow> universal_newlines s = s"
  by (induction s rule: universal_newlines.induct) auto

lemma iter_lines_append_LF:
  "LF \<notin> set u \<Longrightarrow> iter_lines (u @ LF # rest) = (u @ [LF]) # iter_lines rest"
  by (induction u) auto

lemma iter_lines_concat:
  "\<forall>u\<in>set us. LF \<notin> set u \<Longrightarrow> iter_lines (concat (map (\<lambda>u. u @ [LF]) us)) = map (\<lambda>u. u @ [LF]) us"
  by (induction us) (auto simp: iter_lines_append_LF)

lemma concat_iter_lines: "concat (iter_lines t) = t"
  by (induction t) (auto split: list.splits)

lemma set_iter_lines: "l \<in> set (iter_lines t) \<Longrightarrow> set l \<subseteq> set t"
  using concat_iter_lines[of t] by (metis Sup_upper UN_upper set_concat)

lemma iter_lines_butlast: "l \<in> set (iter_lines t) \<Longrightarrow> LF \<notin> set (butlast l)"
  by (induction t arbitrary: l) (auto split: if_splits list.splits)

lemma iter_lines_not_Nil: "l \<in> set (iter_lines t) \<Longrightarrow> l \<noteq> []"
  by (induction t arbitrary: l) (auto split: if_splits list.splits)

lemma set_strip: "set (strip s) \<subseteq> set s"
  unfolding strip_def by (metis set_dropWhileD set_rev subsetI)

lemma isspace_LF: "isspace LF"
  by (simp add: isspace_def LF_def)

lemma strip_no_LF:
  assumes "LF \<notin> set (butlast s)"
  shows "LF \<notin> set (strip s)"
proof (cases "dropWhile isspace s = []")
  case True
  have "strip s = []" by (simp only: strip_def True rev.simps dropWhile.simps)
  then show ?thesis by simp
next
  case False
  define t where "t = dropWhile isspace s"
  have tne: "t \<noteq> []" using False by (simp add: t_def)
  obtain pre where s: "s = pre @ t"
    unfolding t_def by (metis takeWhile_dropWhile_id)
  have "butlast s = pre @ butlast t" using s tne by (simp add: butlast_append)
  with assms have nb: "LF \<notin> set (butlast t)" by simp
  have strip: "strip s = rev (dropWhile isspace (rev t))" by (simp add: strip_def t_def)
  show ?thesis
  proof (cases "last t = LF")
    case True
    have "rev t = LF # rev (butlast t)"
      using tne True by (metis append_butlast_last_id rev.simps(2) rev_rev_ident rev_singleton_conv rev_append append_Cons append_Nil)
    then have "dropWhile isspace (rev t) = dropWhile isspace (LF # rev (butlast t))"
      by (rule arg_cong)
    then have "dropWhile isspace (rev t) = dropWhile isspace (rev (butlast t))"
      by (simp only: dropWhile.simps isspace_LF if_True)
    then have "set (dropWhile isspace (rev t)) \<subseteq> set (butlast t)"
      by (metis set_dropWhileD set_rev subsetI)
    with nb show ?thesis by (auto simp: strip)
  next
    case False
    then have "LF \<notin> set t" using nb tne
      by (metis append_butlast_last_id in_set_conv_decomp_last last_snoc butlast_snoc in_set_butlast_appendI Un_iff set_append empty_iff empty_set set_ConsD)
    then show ?thesis
      by (metis strip set_dropWhileD set_rev)
  qed
qed

lemma butlast_takeWhile_subset: "set (butlast (takeWhile P l)) \<subseteq> set (butlast l)"
  by (induction l) (auto split: if_splits)

lemma fold_add_httpx:
  "fold add_httpx_line ls U = U \<union> {u. \<exists>l\<in>set ls. u = strip (hd (split SPACE l)) \<and> startswith u ''http''}"
  by (induction ls arbitrary: U) (auto simp: add_httpx_line_def Let_def)

lemma fold_add_katana:
  "fold add_katana_line ls U = U \<union> {u. \<exists>l\<in>set ls. u = strip l \<and> startswith u ''http''}"
  by (induction ls arbitrary: U) (auto simp: add_katana_line_def Let_def)

lemma finite_fold_httpx: "finite U \<Longrightarrow> finite (fold add_httpx_line ls U)"
  by (induction ls arbitrary: U) (auto simp: add_httpx_line_def Let_def)

lemma finite_fold_katana: "finite U \<Longrightarrow> finite (fold add_katana_line ls U)"
  by (induction ls arbitrary: U) (auto simp: add_katana_line_def Let_def)

lemma finite_collect_urls: "finite (collect_urls self w)"
  by (simp add: collect_urls_def Let_def finite_fold_httpx finite_fold_katana)

lemma read_text_no_CR: "CR \<notin> set (read_text w p)"
  by (simp add: read_text_def universal_newlines_no_CR split: option.splits)

lemma read_lines_no_CR: "l \<in> set (read_lines w p) \<Longrightarrow> CR \<notin> set l"
  unfolding read_lines_def
  using set_iter_lines[of l "read_text w p"] read_text_no_CR[of w p] by blast

lemma read_lines_butlast: "l \<in> set (read_lines w p) \<Longrightarrow> LF \<notin> set (butlast l)"
  unfolding read_lines_def by (rule iter_lines_butlast)

lemma httpx_url_clean:
  assumes "l \<in> set (read_lines w p)"
  shows "LF \<notin> set (strip (hd (split SPACE l)))" and "CR \<notin> set (strip (hd (split SPACE l)))"
proof -
  let ?t = "takeWhile (\<lambda>c. c \<noteq> SPACE) l"
  have sub: "set (butlast ?t) \<subseteq> set (butlast l)"
    by (rule butlast_takeWhile_subset)
  have "LF \<notin> set (butlast l)"
    using assms by (rule read_lines_butlast)
  with sub have "LF \<notin> set (butlast ?t)"
    by (rule contra_subsetD)
  then have "LF \<notin> set (strip ?t)"
    by (rule strip_no_LF)
  then show "LF \<notin> set (strip (hd (split SPACE l)))"
    unfolding hd_split .
  have "set ?t \<subseteq> set l"
    by (meson set_takeWhileD subsetI)
  moreover have "set (strip ?t) \<subseteq> set ?t"
    by (rule set_strip)
  moreover have "CR \<notin> set l"
    using assms by (rule read_lines_no_CR)
  ultimately have "CR \<notin> set (strip ?t)"
    by (meson subsetD)
  then show "CR \<notin> set (strip (hd (split SPACE l)))"
    unfolding hd_split .
qed

lemma katana_url_clean:
  assumes "l \<in> set (read_lines w p)"
  shows "LF \<notin> set (strip l)" and "CR \<notin> set (strip l)"
proof -
  show "LF \<notin> set (strip l)"
    using read_lines_butlast[OF assms] by (rule strip_no_LF)
  show "CR \<notin> set (strip l)"
    using read_lines_no_CR[OF assms] set_strip[of l] by blast
qed

lemma collect_urls_subset:
  "collect_urls self w \<subseteq>
     {u. \<exists>l\<in>set (read_lines w (path_join (output_dir self) ''httpx.txt'')).
            u = strip (hd (split SPACE l))}
     \<union> {u. \<exists>l\<in>set (read_lines w (path_join (output_dir self) ''katana.txt'')). u = strip l}"
  by (auto simp: collect_urls_def Let_def fold_add_httpx fold_add_katana split: if_splits)

lemma collect_urls_clean:
  assumes "u \<in> collect_urls self w"
  shows "LF \<notin> set u \<and> CR \<notin> set u"
proof -
  from assms collect_urls_subset[of self w]
  consider l where "l \<in> set (read_lines w (path_join (output_dir self) ''httpx.txt''))"
                   "u = strip (hd (split SPACE l))"
    | l where "l \<in> set (read_lines w (path_join (output_dir self) ''katana.txt''))" "u = strip l"
    by blast
  then show ?thesis
  proof cases
    case 1
    then show ?thesis using httpx_url_clean[of l w] by simp
  next
    case 2
    then show ?thesis using katana_url_clean[of l w] by simp
  qed
qed

lemma line_text_snoc: "line_text (u @ [LF]) = u"
  by (simp add: line_text_def)

lemma lines_of_rendered:
  assumes "\<forall>u\<in>set us. LF \<notin> set u \<and> CR \<notin> set u"
  shows "map line_text (iter_lines (universal_newlines (concat (map (\<lambda>u. u @ [LF]) us)))) = us"
proof -
  have "CR \<notin> set (concat (map (\<lambda>u. u @ [LF]) us))"
    using assms by (auto simp: CR_def LF_def)
  then have "universal_newlines (concat (map (\<lambda>u. u @ [LF]) us)) = concat (map (\<lambda>u. u @ [LF]) us)"
    by (rule universal_newlines_id)
  moreover have "iter_lines (concat (map (\<lambda>u. u @ [LF]) us)) = map (\<lambda>u. u @ [LF]) us"
    using assms by (simp add: iter_lines_concat)
  ultimately show ?thesis
    by (simp add: line_text_snoc comp_def)
qed

lemma burp_lines:
  assumes "\<not> dry_run self"
  shows "file_lines (snd (create_burp_file self w)) (path_join (output_dir self) ''urls_for_burp.txt'')
         = sorted_list_of_set (collect_urls self w)"
proof -
  let ?us = "sorted_list_of_set (collect_urls self w)"
  have cl: "\<forall>u\<in>set ?us. LF \<notin> set u \<and> CR \<notin> set u"
    using collect_urls_clean finite_collect_urls by auto
  have cu: "collect_urls self (print_fixed MsgGeneratingBurp w) = collect_urls self w"
    by (simp add: collect_urls_def path_exists_print_fixed read_lines_print_fixed cong: if_cong)
  show ?thesis
    using assms lines_of_rendered[OF cl]
    by (simp add: create_burp_file_def Let_def file_lines_def read_lines_def read_text_def
        files_write_file cu)
qed


lemma collect_urls_absent:
  assumes "\<not> path_exists w (path_join (output_dir self) ''httpx.txt'')"
      and "\<not> path_exists w (path_join (output_dir self) ''katana.txt'')"
  shows "collect_urls self w = {}"
  using assms by (simp add: collect_urls_def)

lemma collect_urls_print_fixed: "collect_urls self (print_fixed m w) = collect_urls self w"
  by (simp add: collect_urls_def path_exists_print_fixed read_lines_print_fixed cong: if_cong)

lemma burp_args_out: "output_dir burp_args = ''out''" and burp_args_wet: "\<not> dry_run burp_args"
  by (simp_all add: burp_args_def)

lemma out_paths:
  "path_join ''out'' ''httpx.txt'' = ''out/httpx.txt''"
  "path_join ''out'' ''katana.txt'' = ''out/katana.txt''"
  "path_join ''out'' ''urls_for_burp.txt'' = ''out/urls_for_burp.txt''"
  "path_join ''out'' ''subfinder.txt'' = ''out/subfinder.txt''"
  "path_join ''out'' ''dnsx.txt'' = ''out/dnsx.txt''"
  "path_join ''out'' ''naabu.txt'' = ''out/naabu.txt''"
  "path_join ''out'' ''summary.json'' = ''out/summary.json''"
  "path_join ''out'' ''llm_prompt.txt'' = ''out/llm_prompt.txt''"
  "path_join ''out'' ''katana_input_clean.txt'' = ''out/katana_input_clean.txt''"
  by (simp_all add: path_join_def startswith_def)

lemma empty_world_absent: "\<not> path_exists empty_world p"
  by (simp add: path_exists_def empty_world_def)


section \<open>Facts about one stage\<close>

lemma spawn_Inr:
  "exec e argv (files w) = Inr (r, fs) \<Longrightarrow> spawn e argv w = (Inr r, emit (Spawn argv) (w\<lparr>files := fs\<rparr>))"
  by (simp add: spawn_def)

lemma spawn_Inl:
  "exec e argv (files w) = Inl err \<Longrightarrow> spawn e argv w = (Inl err, emit (Spawn argv) w)"
  by (simp add: spawn_def)

lemma path_exists_write_output:
  "truthy output_file \<Longrightarrow> path_exists (write_output output_file append_output out w) (the output_file)"
  by (simp add: write_output_def Let_def path_exists_def files_write_file files_append_file)

lemma files_write_output_empty:
  "truthy output_file \<Longrightarrow> strip out = [] \<Longrightarrow>
   files (write_output output_file append_output out w) (the output_file)
     = Some (if append_output then (case files w (the output_file) of None \<Rightarrow> [] | Some old \<Rightarrow> old) else [])"
  by (simp add: write_output_def Let_def path_exists_def files_write_file files_append_file)

lemma print_renders_iff:
  "fst (print e m w) = Return () \<longleftrightarrow> renders e m"
  by (simp add: print_def renders_def split: option.splits)

lemma print_rejects:
  "\<not> renders e m \<Longrightarrow> \<exists>t. print e m w = (Raise (MarkupError t), w)"
  by (auto simp add: print_def renders_def split: option.splits)

lemma count_lines_files: "files w = files w' \<Longrightarrow> count_lines p w = count_lines p w'"
  by (simp add: count_lines_def path_exists_def read_lines_def read_text_def)

lemma run_command_try_success:
  assumes "command \<noteq> []" and "exec e command (files w) = Inr (r, fs)" and "returncode r = 0"
  shows "run_command_try e command step_name output_file append_output w
         = and_then (print e (MsgCompleted step_name
                       (count_lines output_file
                          (write_output output_file append_output (stdout r)
                             (emit (Spawn command) (w\<lparr>files := fs\<rparr>)))))
                     (write_output output_file append_output (stdout r)
                        (emit (Spawn command) (w\<lparr>files := fs\<rparr>))))
             (\<lambda>u w4. (Return True, w4))"
  using assms by (simp add: run_command_try_def spawn_Inr Let_def)

lemma run_command_success:
  assumes "\<not> dry_run self" and "command \<noteq> []"
      and "exec e command (files w) = Inr (r, fs)" and "returncode r = 0"
      and "renders e (MsgRunning step_name)"
  shows "files (snd (run_command self e command step_name output_file append_output w))
         = files (write_output output_file append_output (stdout r)
                    (emit (Spawn command) ((emit (Print (MsgRunning step_name)) w)\<lparr>files := fs\<rparr>)))"
    and "fst (run_command self e command step_name output_file append_output w) = Return True
         \<longleftrightarrow> renders e (MsgCompleted step_name
               (count_lines output_file
                  (write_output output_file append_output (stdout r)
                     (emit (Spawn command) ((emit (Print (MsgRunning step_name)) w)\<lparr>files := fs\<rparr>)))))"
    and "renders e (MsgCompleted step_name
               (count_lines output_file
                  (write_output output_file append_output (stdout r)
                     (emit (Spawn command) ((emit (Print (MsgRunning step_name)) w)\<lparr>files := fs\<rparr>)))))
         \<Longrightarrow> run_command self e command step_name output_file append_output w
           = (Return True, emit (Print (MsgCompleted step_name
               (count_lines output_file
                  (write_output output_file append_output (stdout r)
                     (emit (Spawn command) ((emit (Print (MsgRunning step_name)) w)\<lparr>files := fs\<rparr>))))))
                  (write_output output_file append_output (stdout r)
                     (emit (Spawn command) ((emit (Print (MsgRunning step_name)) w)\<lparr>files := fs\<rparr>))))"
proof -
  let ?w1 = "emit (Print (MsgRunning step_name)) w"
  let ?w3 = "write_output output_file append_output (stdout r) (emit (Spawn command) (?w1\<lparr>files := fs\<rparr>))"
  let ?m = "MsgCompleted step_name (count_lines output_file ?w3)"
  have ex: "exec e command (files ?w1) = Inr (r, fs)"
    using assms(3) by (simp add: files_emit)
  have rc: "run_command self e command step_name output_file append_output w
      = (case and_then (print e ?m ?w3) (\<lambda>u w4. (Return True, w4)) of
               (Return ok, w2) \<Rightarrow> (Return ok, w2)
             | (Raise (SystemExit code), w2) \<Rightarrow> (Raise (SystemExit code), w2)
             | (Raise ex, w2) \<Rightarrow>
                 and_then (print e (MsgException step_name (str_of ex)) w2)
                   (\<lambda>u w3. (Return False, w3)))"
    using assms(1)
    by (simp add: run_command_def print_renders_ok[OF assms(5)] and_then_Return
        run_command_try_success[OF assms(2) ex assms(4)])
  show "files (snd (run_command self e command step_name output_file append_output w)) = files ?w3"
  proof (cases "renders e ?m")
    case True
    then show ?thesis
      by (simp add: rc print_renders_ok and_then_Return files_emit)
  next
    case False
    from print_rejects[OF this, of ?w3] obtain t where t: "print e ?m ?w3 = (Raise (MarkupError t), ?w3)"
      by blast
    have "files (snd (and_then (print e (MsgException step_name t) ?w3) (\<lambda>u w3. (Return False, w3)))) = files ?w3"
      using print_outcome[of e "MsgException step_name t" ?w3]
      by (auto simp: and_then_Return and_then_Raise files_emit)
    then show ?thesis
      by (simp add: rc t and_then_Raise)
  qed
  show "fst (run_command self e command step_name output_file append_output w) = Return True
         \<longleftrightarrow> renders e ?m"
  proof (cases "renders e ?m")
    case True
    then show ?thesis
      by (simp add: rc print_renders_ok and_then_Return)
  next
    case False
    from print_rejects[OF this, of ?w3] obtain t where t: "print e ?m ?w3 = (Raise (MarkupError t), ?w3)"
      by blast
    have "fst (and_then (print e (MsgException step_name t) ?w3) (\<lambda>u w3. (Return False, w3))) \<noteq> Return True"
      using print_outcome[of e "MsgException step_name t" ?w3]
      by (auto simp: and_then_Return and_then_Raise)
    then show ?thesis
      using False by (simp add: rc t and_then_Raise)
  qed
  show "run_command self e command step_name output_file append_output w
           = (Return True, emit (Print ?m) ?w3)" if "renders e ?m"
    using that by (simp add: rc print_renders_ok and_then_Return)
qed

lemma quiet_env_renders: "renders quiet_env m"
  by (simp add: renders_def first_error_renders quiet_env_def)


lemma stat_of_raw: "stat_of self w filename = raw_line_count w (path_join (output_dir self) filename)"
  by (simp add: stat_of_def raw_line_count_def path_exists_def read_lines_def read_text_def
      split: option.splits)

lemma count_lines_le_raw: "count_lines (Some p) w \<le> raw_line_count w p"
  by (simp add: count_lines_def raw_line_count_def path_exists_def read_lines_def read_text_def
      split: option.splits)


lemma summary_world_counts:
  "raw_line_count summary_world ''out/subfinder.txt'' = 3"
  "raw_line_count summary_world ''out/dnsx.txt'' = 0"
  "count_lines (Some ''out/subfinder.txt'') summary_world = 2"
  by (simp_all add: raw_line_count_def summary_world_def count_lines_def path_exists_def read_lines_def
      read_text_def LF_def CR_def strip_def isspace_def)


lemma prompt_world_lines:
  "path_exists prompt_world ''out/katana.txt''"
  "filter (\<lambda>line. strip line \<noteq> []) (read_lines prompt_world ''out/katana.txt'')
     = ['' http://a.example/x \<newline>'', ''http://a.example/y\<newline>'']"
  by (simp_all add: prompt_world_def path_exists_def read_lines_def read_text_def LF_def CR_def
      strip_def isspace_def)

lemma strip_examples:
  "strip '' http://a.example/x \<newline>'' = ''http://a.example/x''"
  "strip ''http://a.example/y\<newline>'' = ''http://a.example/y''"
  by (simp_all add: strip_def isspace_def)


lemma collect_urls_eq:
  "collect_urls self w =
     {u. path_exists w (path_join (output_dir self) ''httpx.txt'')
         \<and> (\<exists>l\<in>set (read_lines w (path_join (output_dir self) ''httpx.txt'')).
               u = strip (takeWhile (\<lambda>c. c \<noteq> SPACE) l) \<and> startswith u ''http'')}
     \<union> {u. path_exists w (path_join (output_dir self) ''katana.txt'')
           \<and> (\<exists>l\<in>set (read_lines w (path_join (output_dir self) ''katana.txt'')).
                 u = strip l \<and> startswith u ''http'')}"
  by (auto simp: collect_urls_def Let_def fold_add_httpx fold_add_katana hd_split)


section \<open>The root domain in the subdomains file\<close>

text \<open>
  Claim C1 says that after a successful Subfinder stage \<open>subfinder.txt\<close> has the target
  domain as one of its lines. The source tests \<open>self.domain not in content\<close>, which asks for
  a substring of the whole text: when the tool reports \<open>www.example.com\<close> for the target
  \<open>example.com\<close>, the stage succeeds, the test finds the target inside the reported name,
  nothing is appended, and no line of the file is the target.
\<close>

theorem root_domain_not_added:
  "fst (run_command root_args subfinder_env
          (cmd_sub root_args ''/usr/bin/subfinder'' ''out/subfinder.txt'')
          ''Subfinder'' (Some ''out/subfinder.txt'') False empty_world) = Return True
   \<and> file_lines
        (ensure_root_domain root_args ''out/subfinder.txt''
           (snd (run_command root_args subfinder_env
                   (cmd_sub root_args ''/usr/bin/subfinder'' ''out/subfinder.txt'')
                   ''Subfinder'' (Some ''out/subfinder.txt'') False empty_world)))
        ''out/subfinder.txt''
       = [''www.example.com'']
   \<and> domain root_args = Some ''example.com''
   \<and> ''example.com''
       \<notin> set (file_lines
                (ensure_root_domain root_args ''out/subfinder.txt''
                   (snd (run_command root_args subfinder_env
                           (cmd_sub root_args ''/usr/bin/subfinder'' ''out/subfinder.txt'')
                           ''Subfinder'' (Some ''out/subfinder.txt'') False empty_world)))
                ''out/subfinder.txt'')"
proof -
  let ?cmd = "cmd_sub root_args ''/usr/bin/subfinder'' ''out/subfinder.txt''"
  have wet: "\<not> dry_run root_args" by (simp add: root_args_def)
  have ne: "?cmd \<noteq> []" by (simp add: cmd_sub_def)
  have ex: "exec subfinder_env ?cmd (files empty_world)
            = Inr (\<lparr>returncode = 0, stdout = ''www.example.com\<newline>'', stderr = []\<rparr>, Map.empty)"
    by (simp add: subfinder_env_def empty_world_def)
  have rn: "renders subfinder_env m" for m
    by (simp add: renders_def first_error_renders subfinder_env_def quiet_env_def)
  have st: "strip ''www.example.com\<newline>'' = ''www.example.com''"
    by (simp add: strip_def isspace_def)
  have rc: "run_command root_args subfinder_env ?cmd ''Subfinder'' (Some ''out/subfinder.txt'') False empty_world
        = (Return True, \<lparr>files = [''out/subfinder.txt'' \<mapsto> ''www.example.com\<newline>''],
                  trace = [Print (MsgRunning ''Subfinder''), Spawn ?cmd, Write ''out/subfinder.txt'',
                           Print (MsgCompleted ''Subfinder'' 1)]\<rparr>)"
    unfolding run_command_success(3)[OF wet ne ex _ rn rn, simplified]
    by (simp add: write_output_def st Let_def write_file_def emit_def empty_world_def
        path_exists_def count_lines_def read_lines_def read_text_def LF_def CR_def)
  have dom: "domain root_args = Some ''example.com''" by (simp add: root_args_def)
  have ct: "contains ''www.example.com\<newline>'' ''example.com''"
    by (simp add: startswith_def)
  show ?thesis
    unfolding rc
    by (simp add: ensure_root_domain_def dom wet path_exists_def read_text_def CR_def LF_def startswith_def
        file_lines_def read_lines_def append_file_def emit_def line_text_def)
qed

section \<open>The consolidated URL file is sorted and free of duplicates\<close>

lemma burp_collect_example:
  "collect_urls burp_args burp_world = {''https://b.example/p'', ''http://a.example''}"
  by (simp add: collect_urls_def burp_args_def burp_world_def path_join_def startswith_def
      path_exists_def read_lines_def read_text_def LF_def CR_def add_httpx_line_def
      add_katana_line_def strip_def isspace_def SPACE_def insert_commute)

text \<open>
  Claim C2. Whatever \<open>httpx.txt\<close> and \<open>katana.txt\<close> hold, and whether or not they exist, the
  lines of \<open>urls_for_burp.txt\<close> after \<open>create_burp_file\<close> are pairwise different, in
  ascending lexicographic order, and as a set they are exactly the set \<open>unique_urls\<close> of kept
  URL strings, compared by plain string equality.
\<close>

theorem burp_file_sorted_distinct:
  assumes "\<not> dry_run self"
  shows "distinct (file_lines (snd (create_burp_file self w))
                     (path_join (output_dir self) ''urls_for_burp.txt''))
       \<and> sorted (file_lines (snd (create_burp_file self w))
                    (path_join (output_dir self) ''urls_for_burp.txt''))
       \<and> set (file_lines (snd (create_burp_file self w))
                 (path_join (output_dir self) ''urls_for_burp.txt''))
          = collect_urls self w"
  using burp_lines[OF assms] finite_collect_urls by simp

theorem burp_file_sorted_distinct_witness:
  "\<not> dry_run burp_args
   \<and> distinct (file_lines (snd (create_burp_file burp_args burp_world)) ''out/urls_for_burp.txt'')
   \<and> sorted (file_lines (snd (create_burp_file burp_args burp_world)) ''out/urls_for_burp.txt'')
   \<and> set (file_lines (snd (create_burp_file burp_args burp_world)) ''out/urls_for_burp.txt'')
      = {''https://b.example/p'', ''http://a.example''}"
  using burp_file_sorted_distinct[of burp_args burp_world] burp_collect_example
  by (simp add: burp_args_def path_join_def startswith_def)

section \<open>What the normalizer extracts from a line\<close>

text \<open>
  Claim C4 says that the candidate URL of an \<open>httpx.txt\<close> line is its leading
  whitespace-delimited token. The source splits at the space character only
  (\<open>line.split(' ')[0].strip()\<close>): on a line whose annotation follows a tab, the whole line is
  the candidate and is kept, and the leading token is not in the set.
\<close>

theorem tab_line_counterexample:
  "leading_token tab_line = ''https://a.example''
   \<and> startswith (leading_token tab_line) ''http''
   \<and> collect_urls burp_args tab_world = {''https://a.example'' @ [CHR 0x09] @ ''[200]''}
   \<and> leading_token tab_line \<notin> collect_urls burp_args tab_world"
  by (simp add: leading_token_def tab_line_def isspace_def startswith_def collect_urls_def
      burp_args_def tab_world_def path_join_def path_exists_def read_lines_def read_text_def
      LF_def CR_def SPACE_def add_httpx_line_def strip_def)


text \<open>
  Claim C4, amended. The candidate URL of an \<open>httpx.txt\<close> line is the text before its first
  space character, trimmed of surrounding whitespace, and it is kept iff it begins with
  \<open>http\<close>; a \<open>katana.txt\<close> line is trimmed and kept iff it begins with \<open>http\<close>. From the line
  \<open>https://a.example [200] [nginx]\<close> exactly \<open>https://a.example\<close> is extracted.
\<close>

theorem normalizer_extraction:
  "collect_urls self w =
     {u. path_exists w (path_join (output_dir self) ''httpx.txt'')
         \<and> (\<exists>l\<in>set (read_lines w (path_join (output_dir self) ''httpx.txt'')).
               u = strip (takeWhile (\<lambda>c. c \<noteq> SPACE) l) \<and> startswith u ''http'')}
     \<union> {u. path_exists w (path_join (output_dir self) ''katana.txt'')
           \<and> (\<exists>l\<in>set (read_lines w (path_join (output_dir self) ''katana.txt'')).
                 u = strip l \<and> startswith u ''http'')}
   \<and> add_httpx_line ''https://a.example [200] [nginx]\<newline>'' {} = {''https://a.example''}"
proof -
  have "add_httpx_line ''https://a.example [200] [nginx]\<newline>'' {} = {''https://a.example''}"
    by (simp add: add_httpx_line_def SPACE_def strip_def isspace_def startswith_def)
  with collect_urls_eq[of self w] show ?thesis by simp
qed

section \<open>A successful stage leaves its output file in place\<close>

text \<open>
  Claim C7. Outside a dry run, when \<open>run_command\<close> is given an output file, gets as far as
  running the external tool (its first log line is rendered) and the tool exits with
  status 0, the output file exists afterwards. If the tool printed nothing (or only
  whitespace), nothing is written to it: opened with \<open>'w'\<close> it is an empty file, opened with
  \<open>'a'\<close> it keeps what it held. \<open>run_command\<close> then returns \<open>True\<close>, unless the console
  rejects the line that reports the completion.
\<close>

theorem output_file_exists_after_success:
  assumes "\<not> dry_run self" and "truthy output_file" and "command \<noteq> []"
      and "exec e command (files w) = Inr (r, fs)" and "returncode r = 0"
      and "renders e (MsgRunning step_name)"
  shows "path_exists (snd (run_command self e command step_name output_file append_output w))
            (the output_file)
       \<and> (strip (stdout r) = [] \<longrightarrow>
            files (snd (run_command self e command step_name output_file append_output w))
              (the output_file)
            = Some (if append_output
                    then (case fs (the output_file) of None \<Rightarrow> [] | Some old \<Rightarrow> old)
                    else []))
       \<and> (fst (run_command self e command step_name output_file append_output w) = Return True
            \<longleftrightarrow> renders e (MsgCompleted step_name
                  (count_lines output_file
                     (snd (run_command self e command step_name output_file append_output w)))))"
proof -
  note rs = run_command_success[OF assms(1,3,4,5,6), of output_file append_output]
  have cl: "count_lines output_file
                     (snd (run_command self e command step_name output_file append_output w))
     = count_lines output_file (write_output output_file append_output (stdout r)
                     (emit (Spawn command) ((emit (Print (MsgRunning step_name)) w)\<lparr>files := fs\<rparr>)))"
    by (rule count_lines_files) (rule rs(1))
  show ?thesis
    using assms(2) rs(2)
    by (simp add: cl path_exists_def rs(1) path_exists_write_output[unfolded path_exists_def]
        files_write_output_empty files_emit)
qed

theorem output_file_exists_after_success_witness:
  "\<not> dry_run burp_args \<and> truthy (Some ''out/dnsx.txt'')
   \<and> [''/usr/bin/dnsx'', ''-l'', ''out/subfinder.txt'', ''-o'', ''out/dnsx.txt''] \<noteq> []
   \<and> exec quiet_env [''/usr/bin/dnsx'', ''-l'', ''out/subfinder.txt'', ''-o'', ''out/dnsx.txt'']
        (files empty_world) = Inr (silent, Map.empty)
   \<and> returncode silent = 0 \<and> strip (stdout silent) = []
   \<and> renders quiet_env (MsgRunning ''DNSx'')
   \<and> fst (run_command burp_args quiet_env
             [''/usr/bin/dnsx'', ''-l'', ''out/subfinder.txt'', ''-o'', ''out/dnsx.txt'']
             ''DNSx'' (Some ''out/dnsx.txt'') False empty_world) = Return True
   \<and> path_exists (snd (run_command burp_args quiet_env
             [''/usr/bin/dnsx'', ''-l'', ''out/subfinder.txt'', ''-o'', ''out/dnsx.txt'']
             ''DNSx'' (Some ''out/dnsx.txt'') False empty_world)) ''out/dnsx.txt''
   \<and> files (snd (run_command burp_args quiet_env
             [''/usr/bin/dnsx'', ''-l'', ''out/subfinder.txt'', ''-o'', ''out/dnsx.txt'']
             ''DNSx'' (Some ''out/dnsx.txt'') False empty_world)) ''out/dnsx.txt'' = Some []"
proof -
  have ex: "exec quiet_env [''/usr/bin/dnsx'', ''-l'', ''out/subfinder.txt'', ''-o'', ''out/dnsx.txt'']
              (files empty_world) = Inr (silent, Map.empty)"
    by (simp add: quiet_env_def empty_world_def)
  have rc: "returncode silent = 0" and so: "strip (stdout silent) = []"
    by (simp_all add: silent_def strip_def)
  have tr: "truthy (Some ''out/dnsx.txt'')"
    by simp
  show ?thesis
    using output_file_exists_after_success[where append_output = False and step_name = "''DNSx''",
        OF burp_args_wet tr _ ex rc quiet_env_renders]
      burp_args_wet ex rc so quiet_env_renders
    by simp
qed

section \<open>The summary counts all lines\<close>

text \<open>
  Claim C8. For each of the six artifact names, \<open>generate_summary\<close> stores the number of lines
  of the file as it is when the summary is made, blank lines included, and 0 when the file
  does not exist. This total is not the count \<open>run_command\<close> reports, which leaves blank
  lines out and so is never larger.
\<close>

theorem summary_counts_raw_lines:
  assumes "\<not> dry_run self"
  shows "files (snd (generate_summary self e w)) (path_join (output_dir self) ''summary.json'')
         = Some (json_summary e
              \<lparr>target = py_or (domain self) (domain_list self),
               timestamp = now_isoformat e,
               stats =
                 [(''subdomains'', raw_line_count w (path_join (output_dir self) ''subfinder.txt'')),
                  (''resolved'', raw_line_count w (path_join (output_dir self) ''dnsx.txt'')),
                  (''ports'', raw_line_count w (path_join (output_dir self) ''naabu.txt'')),
                  (''http_services'', raw_line_count w (path_join (output_dir self) ''httpx.txt'')),
                  (''endpoints'', raw_line_count w (path_join (output_dir self) ''katana.txt'')),
                  (''burp_import'',
                     raw_line_count w (path_join (output_dir self) ''urls_for_burp.txt''))]\<rparr>)
       \<and> count_lines (Some p) w \<le> raw_line_count w p"
  using assms
  by (simp add: generate_summary_def Let_def files_print files_write_file summary_files_def
      stat_of_raw count_lines_le_raw)

theorem summary_counts_raw_lines_witness:
  "\<not> dry_run burp_args
   \<and> files (snd (generate_summary burp_args quiet_env summary_world)) ''out/summary.json''
       = Some (json_summary quiet_env
            \<lparr>target = Some ''b.example'', timestamp = ''2024-05-01T12:00:00'',
             stats = [(''subdomains'', 3), (''resolved'', 0), (''ports'', 0),
                      (''http_services'', 0), (''endpoints'', 0), (''burp_import'', 0)]\<rparr>)
   \<and> count_lines (Some ''out/subfinder.txt'') summary_world = 2
   \<and> raw_line_count summary_world ''out/subfinder.txt'' = 3"
proof -
  have absent: "raw_line_count summary_world p = 0" if "p \<noteq> ''out/subfinder.txt''" for p
    using that by (simp add: raw_line_count_def summary_world_def)
  have tgt: "py_or (domain burp_args) (domain_list burp_args) = Some ''b.example''"
    by (simp add: py_or_def burp_args_def)
  have now: "now_isoformat quiet_env = ''2024-05-01T12:00:00''"
    by (simp add: quiet_env_def)
  show ?thesis
    using summary_counts_raw_lines[OF burp_args_wet, of quiet_env summary_world "''out/subfinder.txt''"]
      burp_args_wet
    unfolding burp_args_out out_paths tgt now
    by (simp add: summary_world_counts absent)
qed

section \<open>The analysis prompt holds at most 200 entries\<close>

text \<open>
  Claim C9. \<open>run_llm_advisory\<close> writes no file when \<open>katana.txt\<close> is missing or has no
  line that is not blank. Otherwise, outside a dry run, the prompt it writes is the fixed
  instruction followed by the encoding of the first \<open>min 200 n\<close> non-blank lines of
  \<open>katana.txt\<close>, each trimmed, in file order, \<open>n\<close> being the number of non-blank lines: never
  more than 200 entries.
\<close>

theorem prompt_first_200:
  "(\<not> path_exists w (path_join (output_dir self) ''katana.txt'')
      \<or> filter (\<lambda>line. strip line \<noteq> []) (read_lines w (path_join (output_dir self) ''katana.txt'')) = []
    \<longrightarrow> files (snd (run_llm_advisory self e w)) = files w
        \<and> (trace (snd (run_llm_advisory self e w)) = trace w
           \<or> trace (snd (run_llm_advisory self e w)) = trace w @ [Print MsgGeneratingPrompt]))
   \<and> (\<not> dry_run self \<and> path_exists w (path_join (output_dir self) ''katana.txt'')
      \<and> filter (\<lambda>line. strip line \<noteq> []) (read_lines w (path_join (output_dir self) ''katana.txt'')) \<noteq> []
    \<longrightarrow> files (snd (run_llm_advisory self e w)) (path_join (output_dir self) ''llm_prompt.txt'')
          = Some (''Analyze these URLs and find high-risk endpoints:'' @ [LF]
                  @ json_urls e (take 200 (map strip
                      (filter (\<lambda>line. strip line \<noteq> [])
                         (read_lines w (path_join (output_dir self) ''katana.txt''))))))
        \<and> length (take 200 (map strip
                      (filter (\<lambda>line. strip line \<noteq> [])
                         (read_lines w (path_join (output_dir self) ''katana.txt'')))))
          = min 200 (length (filter (\<lambda>line. strip line \<noteq> [])
                         (read_lines w (path_join (output_dir self) ''katana.txt'')))))"
  by (simp add: run_llm_advisory_def Let_def files_print files_print_fixed trace_print_fixed
      files_write_file read_lines_print_fixed path_exists_print_fixed min.commute)

theorem prompt_first_200_witness:
  "\<not> dry_run burp_args \<and> path_exists prompt_world ''out/katana.txt''
   \<and> filter (\<lambda>line. strip line \<noteq> []) (read_lines prompt_world ''out/katana.txt'') \<noteq> []
   \<and> files (snd (run_llm_advisory burp_args quiet_env prompt_world)) ''out/llm_prompt.txt''
       = Some (''Analyze these URLs and find high-risk endpoints:'' @ [LF]
               @ json_urls quiet_env [''http://a.example/x'', ''http://a.example/y''])
   \<and> \<not> path_exists empty_world ''out/katana.txt''
   \<and> files (snd (run_llm_advisory burp_args quiet_env empty_world)) = files empty_world"
  using prompt_first_200[of prompt_world burp_args quiet_env]
    prompt_first_200[of empty_world burp_args quiet_env]
    burp_args_wet empty_world_absent[of "''out/katana.txt''"]
  unfolding burp_args_out out_paths
  by (simp add: prompt_world_lines strip_examples)

section \<open>The consolidated URL file is always written\<close>

text \<open>
  Claim C10. Outside a dry run \<open>create_burp_file\<close> always leaves \<open>urls_for_burp.txt\<close>
  in place, with a content that depends on the two URL artifacts only (whatever the file
  held before is gone). When neither \<open>httpx.txt\<close> nor \<open>katana.txt\<close> exists, the file is
  written empty and the count returned is 0.
\<close>

theorem burp_file_always_written:
  assumes "\<not> dry_run self"
  shows "files (snd (create_burp_file self w)) (path_join (output_dir self) ''urls_for_burp.txt'')
           = Some (concat (map (\<lambda>url. url @ [LF]) (sorted_list_of_set (collect_urls self w))))
       \<and> (\<not> path_exists w (path_join (output_dir self) ''httpx.txt'')
            \<and> \<not> path_exists w (path_join (output_dir self) ''katana.txt'')
          \<longrightarrow> files (snd (create_burp_file self w)) (path_join (output_dir self) ''urls_for_burp.txt'')
                = Some []
              \<and> fst (create_burp_file self w)
                = Some (path_join (output_dir self) ''urls_for_burp.txt'', 0))"
  using assms
  by (simp add: create_burp_file_def Let_def files_write_file collect_urls_print_fixed collect_urls_absent)

theorem burp_file_always_written_witness:
  "\<not> dry_run burp_args
   \<and> \<not> path_exists empty_world ''out/httpx.txt'' \<and> \<not> path_exists empty_world ''out/katana.txt''
   \<and> files (snd (create_burp_file burp_args empty_world)) ''out/urls_for_burp.txt'' = Some []
   \<and> fst (create_burp_file burp_args empty_world) = Some (''out/urls_for_burp.txt'', 0)"
  using burp_file_always_written[OF burp_args_wet, of empty_world] burp_args_wet
    empty_world_absent[of "''out/httpx.txt''"] empty_world_absent[of "''out/katana.txt''"]
  unfolding burp_args_out out_paths by blast

end
